theory Spec2Isabelle
  imports Main "HOL-Library.Char_ord" "HOL-Library.List_Lexorder" "HOL-Library.Multiset"
begin

section \<open>Values handled by the publisher\<close>

text \<open>
  The publisher (\<^verbatim>\<open>jobs/buildhub/to_kinto.py\<close>) reads records with \<^verbatim>\<open>json.loads\<close> and
  receives responses that were decoded from JSON, so every value it touches is a JSON tree.
  A Python \<^verbatim>\<open>dict\<close> keeps its keys in insertion order and holds each key once: it is an
  association list whose keys are distinct. Numbers are integers (the records and the
  responses carry sizes, timestamps and status codes); strings are lists of characters
  with code points below 256.
\<close>

datatype json =
    JNull
  | JBool bool
  | JInt int
  | JStr string
  | JArray "json list"
  | JObject "(string \<times> json) list"

type_synonym pydict = "(string \<times> json) list"

text \<open>The exceptions the modelled code can raise.\<close>

datatype error = KeyError string | TypeError | ValueError string

text \<open>\<^verbatim>\<open>d.get(k)\<close>: the value, or \<^verbatim>\<open>None\<close> when the key is absent.\<close>

definition dict_get :: "pydict \<Rightarrow> string \<Rightarrow> json option" where
  "dict_get d k = map_of d k"

text \<open>\<^verbatim>\<open>d.pop(k, None)\<close>: the dictionary afterwards (the popped value is discarded).\<close>

definition dict_pop :: "string \<Rightarrow> pydict \<Rightarrow> pydict" where
  "dict_pop k d = filter (\<lambda>kv. fst kv \<noteq> k) d"

text \<open>
  \<^verbatim>\<open>v[k]\<close> with a string subscript: a dictionary raises \<^verbatim>\<open>KeyError\<close> on a missing key,
  every other JSON value raises \<^verbatim>\<open>TypeError\<close> (lists and strings take integer indices,
  the rest is not subscriptable).
\<close>

fun py_getitem :: "json \<Rightarrow> string \<Rightarrow> error + json" where
  "py_getitem (JObject d) k = (case map_of d k of None \<Rightarrow> Inl (KeyError k) | Some v \<Rightarrow> Inr v)"
| "py_getitem _ k = Inl TypeError"

text \<open>
  \<^verbatim>\<open>k in v\<close> for a string \<^verbatim>\<open>k\<close>: a key of a dictionary, an element of a list, a
  substring of a string; \<^verbatim>\<open>TypeError\<close> on a number, a boolean or \<^verbatim>\<open>None\<close>.
\<close>

fun is_substring :: "string \<Rightarrow> string \<Rightarrow> bool" where
  "is_substring k [] = (k = [])"
| "is_substring k (c # s) = (take (length k) (c # s) = k \<or> is_substring k s)"

fun py_contains :: "string \<Rightarrow> json \<Rightarrow> error + bool" where
  "py_contains k (JObject d) = Inr (k \<in> fst ` set d)"
| "py_contains k (JArray xs) = Inr (JStr k \<in> set xs)"
| "py_contains k (JStr s) = Inr (is_substring k s)"
| "py_contains k _ = Inl TypeError"

text \<open>\<^verbatim>\<open>sep.join(xs)\<close>.\<close>

fun py_join :: "string \<Rightarrow> string list \<Rightarrow> string" where
  "py_join sep [] = []"
| "py_join sep [x] = x"
| "py_join sep (x # y # ys) = x @ sep @ py_join sep (y # ys)"

subsection \<open>\<^verbatim>\<open>json.dumps(value, sort_keys=True)\<close>\<close>

definition digit_char :: "nat \<Rightarrow> char" where
  "digit_char n = ''0123456789abcdef'' ! (n mod 16)"

function nat_digits :: "nat \<Rightarrow> string" where
  "nat_digits n = (if n < 10 then [digit_char n] else nat_digits (n div 10) @ [digit_char (n mod 10)])"
  by pat_completeness auto
termination
  by (relation "measure id") auto

declare nat_digits.simps [simp del]

text \<open>\<^verbatim>\<open>str(i)\<close> of an integer, which is also how \<^verbatim>\<open>json.dumps\<close> writes it.\<close>

definition int_str :: "int \<Rightarrow> string" where
  "int_str i = (if i < 0 then CHR ''-'' # nat_digits (nat (- i)) else nat_digits (nat i))"

text \<open>
  The escaping of \<^verbatim>\<open>json.dumps\<close> with its default \<^verbatim>\<open>ensure_ascii=True\<close>: the quote and
  the backslash are escaped, the five short escapes are used, and every other character
  outside the printable ASCII range \<^verbatim>\<open>' '..'~'\<close> is written \<^verbatim>\<open>\u00XX\<close>.
\<close>

definition json_escape_char :: "char \<Rightarrow> string" where
  "json_escape_char c =
     (if c = CHR 0x22 then [CHR 0x5C, CHR 0x22]
      else if c = CHR 0x5C then [CHR 0x5C, CHR 0x5C]
      else if c = CHR 0x08 then [CHR 0x5C, CHR ''b'']
      else if c = CHR 0x0C then [CHR 0x5C, CHR ''f'']
      else if c = CHR 0x0A then [CHR 0x5C, CHR ''n'']
      else if c = CHR 0x0D then [CHR 0x5C, CHR ''r'']
      else if c = CHR 0x09 then [CHR 0x5C, CHR ''t'']
      else if (of_char c :: nat) < 0x20 \<or> 0x7E < (of_char c :: nat)
        then [CHR 0x5C, CHR ''u'', CHR ''0'', CHR ''0'',
              digit_char (of_char c div 16), digit_char (of_char c mod 16)]
      else [c])"

definition json_string :: "string \<Rightarrow> string" where
  "json_string s = [CHR 0x22] @ concat (map json_escape_char s) @ [CHR 0x22]"

text \<open>
  With \<^verbatim>\<open>sort_keys=True\<close> the encoder writes the items of every dictionary in the order
  of their keys (Python sorts the \<^verbatim>\<open>(key, value)\<close> pairs; the keys of a dictionary are
  distinct, so the values are never compared). Items are separated by \<^verbatim>\<open>", "\<close> and a key
  from its value by \<^verbatim>\<open>": "\<close>.
\<close>

fun json_dumps :: "json \<Rightarrow> string" where
  "json_dumps JNull = ''null''"
| "json_dumps (JBool b) = (if b then ''true'' else ''false'')"
| "json_dumps (JInt i) = int_str i"
| "json_dumps (JStr s) = json_string s"
| "json_dumps (JArray xs) = ''['' @ py_join '', '' (map json_dumps xs) @ '']''"
| "json_dumps (JObject kvs) =
     ''{'' @ py_join '', ''
        (map (\<lambda>kv. json_string (fst kv) @ '': '' @ json_dumps (snd kv)) (sort_key fst kvs))
      @ ''}''"

subsection \<open>\<^verbatim>\<open>str(value)\<close>\<close>

text \<open>
  The error messages of the publisher are built with \<^verbatim>\<open>str.format\<close>, which writes a
  value with \<^verbatim>\<open>str()\<close>. \<^verbatim>\<open>str\<close> of a string is the string; of every other JSON value it
  is its \<^verbatim>\<open>repr\<close>, where a string is quoted (with double quotes only if it holds a
  single quote and no double quote) and a dictionary is written in insertion order.
  The publisher's definitions take the formatter as the parameter \<open>fmt\<close>; \<open>py_str\<close> is
  the instance used to run them.
\<close>

definition repr_char :: "char \<Rightarrow> char \<Rightarrow> string" where
  "repr_char quote c =
     (if c = quote \<or> c = CHR 0x5C then [CHR 0x5C, c]
      else if c = CHR 0x09 then [CHR 0x5C, CHR ''t'']
      else if c = CHR 0x0A then [CHR 0x5C, CHR ''n'']
      else if c = CHR 0x0D then [CHR 0x5C, CHR ''r'']
      else if (of_char c :: nat) < 0x20 \<or> (of_char c :: nat) = 0x7F
              \<or> (0x80 \<le> (of_char c :: nat) \<and> (of_char c :: nat) \<le> 0xA0)
              \<or> (of_char c :: nat) = 0xAD
        then [CHR 0x5C, CHR ''x'', digit_char (of_char c div 16), digit_char (of_char c mod 16)]
      else [c])"

definition repr_string :: "string \<Rightarrow> string" where
  "repr_string s =
     (let quote = (if CHR 0x27 \<in> set s \<and> CHR 0x22 \<notin> set s then CHR 0x22 else CHR 0x27)
      in [quote] @ concat (map (repr_char quote) s) @ [quote])"

fun py_repr :: "json \<Rightarrow> string" where
  "py_repr JNull = ''None''"
| "py_repr (JBool b) = (if b then ''True'' else ''False'')"
| "py_repr (JInt i) = int_str i"
| "py_repr (JStr s) = repr_string s"
| "py_repr (JArray xs) = ''['' @ py_join '', '' (map py_repr xs) @ '']''"
| "py_repr (JObject kvs) =
     ''{'' @ py_join '', '' (map (\<lambda>kv. repr_string (fst kv) @ '': '' @ py_repr (snd kv)) kvs) @ ''}''"

fun py_str :: "json \<Rightarrow> string" where
  "py_str (JStr s) = s"
| "py_str v = py_repr v"

section \<open>Content hash\<close>

text \<open>
  \<^verbatim>\<open>hashlib.md5(text.encode('utf-8')).hexdigest()\<close> belongs to the Python library, not to
  this program: it is the parameter \<open>md5\<close> of every definition that hashes. Nothing below
  depends on which function it is.

  \<^verbatim>\<open>hash_record_mutate\<close> pops the two volatile keys from the dictionary it is given and
  hashes what is left, so it returns the digest together with the dictionary as the
  call leaves it.
\<close>

definition hash_record_mutate :: "(string \<Rightarrow> string) \<Rightarrow> pydict \<Rightarrow> string \<times> pydict" where
  "hash_record_mutate md5 record =
     (let record1 = dict_pop ''last_modified'' record;
          record2 = dict_pop ''schema'' record1
      in (md5 (json_dumps (JObject record2)), record2))"

text \<open>\<^verbatim>\<open>copy.deepcopy\<close> of a JSON tree is an equal tree in a new object.\<close>

definition deepcopy :: "pydict \<Rightarrow> pydict" where
  "deepcopy record = record"

definition hash_record :: "(string \<Rightarrow> string) \<Rightarrow> pydict \<Rightarrow> string" where
  "hash_record md5 record = fst (hash_record_mutate md5 (deepcopy record))"

subsection \<open>The two functions on a store of dictionary objects\<close>

text \<open>
  Whether the caller's record changes depends on which object is mutated. The store
  holds the dictionary objects; a reference is an index into it. \<^verbatim>\<open>copy.deepcopy\<close>
  allocates a new object, \<^verbatim>\<open>record.pop\<close> overwrites the object it is called on.
  A Python reference is never dangling; the functions return \<open>None\<close> for an index that
  is not in the store.
\<close>

type_synonym heap = "pydict list"

definition hash_record_mutate_at :: "(string \<Rightarrow> string) \<Rightarrow> nat \<Rightarrow> heap \<Rightarrow> (string \<times> heap) option" where
  "hash_record_mutate_at md5 a h =
     (if a < length h
      then (let (digest, record') = hash_record_mutate md5 (h ! a) in Some (digest, h[a := record']))
      else None)"

definition deepcopy_at :: "nat \<Rightarrow> heap \<Rightarrow> (nat \<times> heap) option" where
  "deepcopy_at a h = (if a < length h then Some (length h, h @ [deepcopy (h ! a)]) else None)"

definition hash_record_at :: "(string \<Rightarrow> string) \<Rightarrow> nat \<Rightarrow> heap \<Rightarrow> (string \<times> heap) option" where
  "hash_record_at md5 a h =
     (case deepcopy_at a h of
        None \<Rightarrow> None
      | Some (c, h1) \<Rightarrow> hash_record_mutate_at md5 c h1)"

text \<open>
  The specification's \<^verbatim>\<open>stripVolatile\<close>, written from its words ("removes the
  \<^verbatim>\<open>last_modified\<close> and \<^verbatim>\<open>schema\<close> fields"), to be compared with what the code pops.
\<close>

definition stripVolatile :: "pydict \<Rightarrow> pydict" where
  "stripVolatile record = filter (\<lambda>kv. fst kv \<noteq> ''last_modified'' \<and> fst kv \<noteq> ''schema'') record"

text \<open>
  "Stable key ordering": the same value with the items of every dictionary, at every
  depth, in the order of their keys.
\<close>

fun sort_items :: "json \<Rightarrow> json" where
  "sort_items (JArray xs) = JArray (map sort_items xs)"
| "sort_items (JObject kvs) = JObject (sort_key fst (map (\<lambda>kv. (fst kv, sort_items (snd kv))) kvs))"
| "sort_items v = v"

section \<open>Hash Cache Store\<close>

text \<open>
  \<^verbatim>\<open>fetch_existing\<close> keeps a dictionary from record identifier to the two-element list
  \<^verbatim>\<open>[last_modified, hash]\<close>. A key of a Python dictionary is any hashable value: lists
  and dictionaries raise \<^verbatim>\<open>TypeError\<close>, and \<^verbatim>\<open>True\<close>/\<^verbatim>\<open>False\<close> are the keys \<^verbatim>\<open>1\<close>/\<^verbatim>\<open>0\<close>.
\<close>

type_synonym cache = "(json \<times> json) list"

fun cache_key :: "json \<Rightarrow> error + json" where
  "cache_key (JArray xs) = Inl TypeError"
| "cache_key (JObject d) = Inl TypeError"
| "cache_key (JBool b) = Inr (JInt (if b then 1 else 0))"
| "cache_key v = Inr v"

text \<open>\<^verbatim>\<open>records[k] = v\<close>: an existing key keeps its place, a new one goes last.\<close>

fun cache_set :: "json \<Rightarrow> json \<Rightarrow> cache \<Rightarrow> cache" where
  "cache_set k v [] = [(k, v)]"
| "cache_set k v (p # ps) = (if fst p = k then (k, v) # ps else p # cache_set k v ps)"

text \<open>
  The loop of \<^verbatim>\<open>fetch_existing\<close> over the remote records, page by page. Reading the
  cache file before the loop and asking the server for the pages belong to the
  environment: \<open>records\<close> is the dictionary read from the file, empty when there is no
  file, and the pages are what the server returned. \<^verbatim>\<open>fetch_existing\<close> returns the
  dictionary it built, and \<^verbatim>\<open>main\<close> passes it to
  \<^verbatim>\<open>consume\<close> as \<^verbatim>\<open>existing\<close>. For each record the entry is built from
  \<^verbatim>\<open>record['last_modified']\<close> and \<^verbatim>\<open>hash_record_mutate(record)\<close>, in this order, and
  only then is \<^verbatim>\<open>record['id']\<close> read (Python evaluates the right-hand side of an
  assignment before the subscript of its target).
\<close>

definition fetch_entry :: "(string \<Rightarrow> string) \<Rightarrow> cache \<Rightarrow> pydict \<Rightarrow> error + cache" where
  "fetch_entry md5 records record =
     (case py_getitem (JObject record) ''last_modified'' of
        Inl e \<Rightarrow> Inl e
      | Inr ts \<Rightarrow>
          (let (digest, record') = hash_record_mutate md5 record in
           case py_getitem (JObject record') ''id'' of
             Inl e \<Rightarrow> Inl e
           | Inr rid \<Rightarrow>
               (case cache_key rid of
                  Inl e \<Rightarrow> Inl e
                | Inr k \<Rightarrow> Inr (cache_set k (JArray [ts, JStr digest]) records))))"

fun fetch_records :: "(string \<Rightarrow> string) \<Rightarrow> cache \<Rightarrow> pydict list \<Rightarrow> error + cache" where
  "fetch_records md5 records [] = Inr records"
| "fetch_records md5 records (record # new_records) =
     (case fetch_entry md5 records record of
        Inl e \<Rightarrow> Inl e
      | Inr records' \<Rightarrow> fetch_records md5 records' new_records)"

fun fetch_pages :: "(string \<Rightarrow> string) \<Rightarrow> cache \<Rightarrow> pydict list list \<Rightarrow> error + cache" where
  "fetch_pages md5 records [] = Inr records"
| "fetch_pages md5 records (new_records # new_records_batches) =
     (case fetch_records md5 records new_records of
        Inl e \<Rightarrow> Inl e
      | Inr records' \<Rightarrow> fetch_pages md5 records' new_records_batches)"

text \<open>
  After the loop: \<^verbatim>\<open>if records:\<close> the dictionary is written with
  \<^verbatim>\<open>json.dump(records, f, sort_keys=True, indent=2)\<close>. The encoder sorts the items of
  the dictionary before it writes them, and Python orders two keys only when both are
  strings or both are integers: with keys of two kinds, or with \<^verbatim>\<open>None\<close> and another
  key, the sort raises \<^verbatim>\<open>TypeError\<close> and \<^verbatim>\<open>fetch_existing\<close> does not return.
\<close>

fun same_kind :: "json \<Rightarrow> json \<Rightarrow> bool" where
  "same_kind (JStr a) (JStr b) = True"
| "same_kind (JInt a) (JInt b) = True"
| "same_kind _ _ = False"

fun sortable_keys :: "json list \<Rightarrow> bool" where
  "sortable_keys [] = True"
| "sortable_keys (k # ks) = list_all (same_kind k) ks"

definition write_cache :: "cache \<Rightarrow> error option" where
  "write_cache records =
     (if records \<noteq> [] \<and> \<not> sortable_keys (map fst records) then Some TypeError else None)"

definition fetch_existing :: "(string \<Rightarrow> string) \<Rightarrow> cache \<Rightarrow> pydict list list \<Rightarrow> error + cache" where
  "fetch_existing md5 records new_records_batches =
     (case fetch_pages md5 records new_records_batches of
        Inl e \<Rightarrow> Inl e
      | Inr records' \<Rightarrow>
          (case write_cache records' of
             Some e \<Rightarrow> Inl e
           | None \<Rightarrow> Inr records'))"

section \<open>Producer\<close>

text \<open>
  The queue holds the items and, last, the sentinel object \<^verbatim>\<open>done\<close>. It is an
  \<^verbatim>\<open>asyncio.Queue()\<close> without a size limit, so \<^verbatim>\<open>put\<close> never waits. An input item is
  whatever \<^verbatim>\<open>json.loads\<close> made of a line: any JSON value.
\<close>

datatype qitem = Record json | Done

definition invalid_record :: error where
  "invalid_record = ValueError (''Invalid record (missing '' @ [CHR 0x27] @ ''data'' @ [CHR 0x27] @ '' attribute)'')"

text \<open>
  \<^verbatim>\<open>produce\<close> returns the queue as it leaves it and the exception it raised, if any.
  The test is \<^verbatim>\<open>'data' not in record and 'permission' not in record\<close>: the second
  operand is evaluated only when the first is true.
\<close>

fun produce :: "json list \<Rightarrow> qitem list \<Rightarrow> qitem list \<times> error option" where
  "produce [] queue = (queue @ [Done], None)"
| "produce (record # records) queue =
     (case py_contains ''data'' record of
        Inl e \<Rightarrow> (queue, Some e)
      | Inr has_data \<Rightarrow>
          if has_data then produce records (queue @ [Record record])
          else
            (case py_contains ''permission'' record of
               Inl e \<Rightarrow> (queue, Some e)
             | Inr has_permission \<Rightarrow>
                 if has_permission then produce records (queue @ [Record record])
                 else (queue, Some invalid_record)))"

section \<open>Consumer\<close>

text \<open>
  \<^verbatim>\<open>record_unchanged(record)\<close>, the closure of \<^verbatim>\<open>consume\<close> over \<^verbatim>\<open>existing\<close>:
  \<^verbatim>\<open>record['id'] in existing and existing.get(record['id']) == hash_record(record)\<close>.
  The right operand of \<^verbatim>\<open>and\<close> is evaluated only when the left one is true. A Python
  value equals a string only if it is that string.
\<close>

definition record_unchanged :: "(string \<Rightarrow> string) \<Rightarrow> cache \<Rightarrow> json \<Rightarrow> error + bool" where
  "record_unchanged md5 existing record =
     (case py_getitem record ''id'' of
        Inl e \<Rightarrow> Inl e
      | Inr rid \<Rightarrow>
          (case cache_key rid of
             Inl e \<Rightarrow> Inl e
           | Inr k \<Rightarrow>
               (case map_of existing k of
                  None \<Rightarrow> Inr False
                | Some v \<Rightarrow>
                    (case record of
                       JObject d \<Rightarrow> Inr (v = JStr (hash_record md5 d))
                     | _ \<Rightarrow> Inl TypeError))))"

text \<open>
  The consumer waits on \<^verbatim>\<open>queue.get()\<close> under a timeout; each wait ends with an item or
  with the timeout. What the consumer does is a function of this sequence of events.
  Its state is the batch being filled, the batches handed to the executor (one
  \<^verbatim>\<open>publish_records\<close> call each), and the number of \<^verbatim>\<open>queue.task_done()\<close> calls it made
  itself (the callback of a finished batch makes the others).
\<close>

datatype event = Got qitem | Timeout

record consumer =
  batch :: "json list"
  dispatched :: "json list list"
  tasks_done :: nat

text \<open>
  After the inner loop: \<^verbatim>\<open>if batch: loop.run_in_executor(executor, publish_records, client, batch)\<close>,
  and the next round starts with \<^verbatim>\<open>batch = []\<close>.
\<close>

definition dispatch :: "consumer \<Rightarrow> consumer" where
  "dispatch st =
     (if batch st \<noteq> [] then st\<lparr>dispatched := dispatched st @ [batch st], batch := []\<rparr> else st)"

text \<open>
  One wait of the inner loop \<^verbatim>\<open>while len(batch) < ideal_batch_size\<close>, entered with the
  loop condition true. The message of the skip branch is an f-string over
  \<^verbatim>\<open>record['id']\<close>, where \<^verbatim>\<open>record\<close> is the queue item: it is evaluated before
  \<^verbatim>\<open>queue.task_done()\<close>, whatever the log level.
\<close>

fun consume_step :: "(string \<Rightarrow> string) \<Rightarrow> int \<Rightarrow> cache \<Rightarrow> consumer \<Rightarrow> event \<Rightarrow> error + consumer" where
  "consume_step md5 ideal_batch_size existing st Timeout = Inr (dispatch st)"
| "consume_step md5 ideal_batch_size existing st (Got Done) =
     Inr (dispatch (st\<lparr>tasks_done := Suc (tasks_done st)\<rparr>))"
| "consume_step md5 ideal_batch_size existing st (Got (Record record)) =
     (case py_getitem record ''data'' of
        Inl e \<Rightarrow> Inl e
      | Inr data \<Rightarrow>
          (case record_unchanged md5 existing data of
             Inl e \<Rightarrow> Inl e
           | Inr True \<Rightarrow>
               (case py_getitem record ''id'' of
                  Inl e \<Rightarrow> Inl e
                | Inr _ \<Rightarrow> Inr (st\<lparr>tasks_done := Suc (tasks_done st)\<rparr>))
           | Inr False \<Rightarrow>
               (let st' = st\<lparr>batch := batch st @ [record]\<rparr>
                in if int (length (batch st')) < ideal_batch_size then Inr st' else Inr (dispatch st'))))"

text \<open>
  The consumer over a sequence of events. An exception ends the task: the state stays
  as it was before the failing step and the remaining events are not consumed.
\<close>

fun consume_loop :: "(string \<Rightarrow> string) \<Rightarrow> int \<Rightarrow> cache \<Rightarrow> consumer \<Rightarrow> event list \<Rightarrow> consumer \<times> error option" where
  "consume_loop md5 ideal_batch_size existing st [] = (st, None)"
| "consume_loop md5 ideal_batch_size existing st (ev # evs) =
     (case consume_step md5 ideal_batch_size existing st ev of
        Inl e \<Rightarrow> (st, Some e)
      | Inr st' \<Rightarrow> consume_loop md5 ideal_batch_size existing st' evs)"

text \<open>
  \<^verbatim>\<open>consume\<close>: \<^verbatim>\<open>BATCH_MAX_REQUESTS\<close> comes from the configuration and
  \<^verbatim>\<open>info['settings']['batch_max_requests']\<close> from the server. With a batch size
  below one the inner loop is never entered and the outer loop spins without ever
  waiting on the queue: the result is \<open>None\<close>.
\<close>

definition consume :: "(string \<Rightarrow> string) \<Rightarrow> int \<Rightarrow> int \<Rightarrow> cache \<Rightarrow> event list \<Rightarrow> (consumer \<times> error option) option" where
  "consume md5 BATCH_MAX_REQUESTS batch_max_requests existing events =
     (let ideal_batch_size = min BATCH_MAX_REQUESTS batch_max_requests
      in if ideal_batch_size < 1 then None
         else Some (consume_loop md5 ideal_batch_size existing
                      \<lparr>batch = [], dispatched = [], tasks_done = 0\<rparr> events))"

section \<open>Batch publisher\<close>

datatype batch_op = Update json | Create json

text \<open>
  The body of \<^verbatim>\<open>with client.batch() as batch\<close>: one operation per record. An exception
  inside the block leaves it before the batch is sent.
\<close>

fun batch_ops :: "json list \<Rightarrow> error + batch_op list" where
  "batch_ops [] = Inr []"
| "batch_ops (record # records) =
     (case py_getitem record ''data'' of
        Inl e \<Rightarrow> Inl e
      | Inr data \<Rightarrow>
          (case py_contains ''id'' data of
             Inl e \<Rightarrow> Inl e
           | Inr has_id \<Rightarrow>
               (case batch_ops records of
                  Inl e \<Rightarrow> Inl e
                | Inr ops \<Rightarrow> Inr ((if has_id then Update record else Create record) # ops))))"

text \<open>
  The message of a 412:
  \<^verbatim>\<open>"Record '{details[existing][id]}' already exists: {details[existing]}".format_map(result)\<close>.
  Each field is looked up by subscripts and written by the formatter \<open>fmt\<close>.
\<close>

definition conflict_msg :: "(json \<Rightarrow> string) \<Rightarrow> pydict \<Rightarrow> error + string" where
  "conflict_msg fmt result =
     (case py_getitem (JObject result) ''details'' of
        Inl e \<Rightarrow> Inl e
      | Inr details \<Rightarrow>
          (case py_getitem details ''existing'' of
             Inl e \<Rightarrow> Inl e
           | Inr existing \<Rightarrow>
               (case py_getitem existing ''id'' of
                  Inl e \<Rightarrow> Inl e
                | Inr rid \<Rightarrow>
                    Inr (''Record '' @ [CHR 0x27] @ fmt rid @ [CHR 0x27] @ '' already exists: ''
                         @ fmt existing))))"

text \<open>One round of the loop over the results: the message to append, if any.\<close>

definition result_error_msg :: "(json \<Rightarrow> string) \<Rightarrow> pydict \<Rightarrow> error + string option" where
  "result_error_msg fmt result =
     (let error_status = dict_get result ''code'' in
      if error_status = Some (JInt 412) then
        (case conflict_msg fmt result of Inl e \<Rightarrow> Inl e | Inr error_msg \<Rightarrow> Inr (Some error_msg))
      else if error_status = Some (JInt 400) then
        Inr (Some (''Invalid record: '' @ fmt (JObject result)))
      else if error_status \<noteq> None \<and> error_status \<noteq> Some JNull then
        Inr (Some (''Error: '' @ fmt (JObject result)))
      else Inr None)"

fun collect_error_msgs :: "(json \<Rightarrow> string) \<Rightarrow> pydict list \<Rightarrow> string list \<Rightarrow> error + string list" where
  "collect_error_msgs fmt [] error_msgs = Inr error_msgs"
| "collect_error_msgs fmt (result # results) error_msgs =
     (case result_error_msg fmt result of
        Inl e \<Rightarrow> Inl e
      | Inr None \<Rightarrow> collect_error_msgs fmt results error_msgs
      | Inr (Some error_msg) \<Rightarrow> collect_error_msgs fmt results (error_msgs @ [error_msg]))"

text \<open>
  \<^verbatim>\<open>publish_records\<close>: \<open>send\<close> is the batch request of the Kinto client, from the operations
  to the list of sub-results that \<^verbatim>\<open>batch.results()\<close> returns.
\<close>

definition publish_records :: "(batch_op list \<Rightarrow> pydict list) \<Rightarrow> (json \<Rightarrow> string) \<Rightarrow> json list \<Rightarrow> error + pydict list" where
  "publish_records send fmt records =
     (case batch_ops records of
        Inl e \<Rightarrow> Inl e
      | Inr ops \<Rightarrow>
          (let results = send ops in
           case collect_error_msgs fmt results [] of
             Inl e \<Rightarrow> Inl e
           | Inr error_msgs \<Rightarrow>
               if error_msgs \<noteq> [] then Inl (ValueError (py_join [CHR 0x0A] error_msgs))
               else Inr results))"

text \<open>A client whose batch request is answered with the given sub-results.\<close>

definition kinto_replies :: "pydict list \<Rightarrow> batch_op list \<Rightarrow> pydict list" where
  "kinto_replies results ops = results"

section \<open>Terms of the specification\<close>

text \<open>
  A sub-result "carries an error code" when it has a \<^verbatim>\<open>code\<close> that is not null.
\<close>

definition carries_error_code :: "pydict \<Rightarrow> bool" where
  "carries_error_code result =
     (dict_get result ''code'' \<noteq> None \<and> dict_get result ''code'' \<noteq> Some JNull)"

text \<open>
  "The conflicting existing record's identity": the record under \<^verbatim>\<open>details.existing\<close> of
  the sub-result and its \<^verbatim>\<open>id\<close>, when the sub-result has them.
\<close>

definition conflict_identity :: "pydict \<Rightarrow> (json \<times> json) option" where
  "conflict_identity result =
     (case map_of result ''details'' of
        Some (JObject details) \<Rightarrow>
          (case map_of details ''existing'' of
             Some (JObject existing) \<Rightarrow>
               (case map_of existing ''id'' of
                  Some rid \<Rightarrow> Some (rid, JObject existing)
                | None \<Rightarrow> None)
           | _ \<Rightarrow> None)
      | _ \<Rightarrow> None)"

text \<open>
  How the aggregated failure describes one erroneous sub-result: a 412 with the identity
  of the existing record, a 400 as an invalid record, anything else generically.
\<close>

definition failure_description :: "(json \<Rightarrow> string) \<Rightarrow> pydict \<Rightarrow> string" where
  "failure_description fmt result =
     (case (if dict_get result ''code'' = Some (JInt 412) then conflict_identity result else None) of
        Some (rid, existing) \<Rightarrow>
          ''Record '' @ [CHR 0x27] @ fmt rid @ [CHR 0x27] @ '' already exists: '' @ fmt existing
      | None \<Rightarrow>
          if dict_get result ''code'' = Some (JInt 400) then ''Invalid record: '' @ fmt (JObject result)
          else ''Error: '' @ fmt (JObject result))"

text \<open>
  An item "has a \<^verbatim>\<open>data\<close> key or a \<^verbatim>\<open>permission\<close> key": only a JSON object has keys.
\<close>

fun is_object :: "json \<Rightarrow> bool" where
  "is_object (JObject d) = True"
| "is_object _ = False"

fun has_payload :: "json \<Rightarrow> bool" where
  "has_payload (JObject d) = (''data'' \<in> fst ` set d \<or> ''permission'' \<in> fst ` set d)"
| "has_payload _ = False"

text \<open>
  A Hash Cache Store as \<^verbatim>\<open>fetch_existing\<close> keeps it: every entry is a list.
\<close>

definition list_entries :: "cache \<Rightarrow> bool" where
  "list_entries records = (\<forall>v\<in>snd ` set records. \<exists>xs. v = JArray xs)"

section \<open>Properties of the content hash\<close>

lemma dict_pop_strip: "dict_pop ''schema'' (dict_pop ''last_modified'' r) = stripVolatile r"
  by (simp add: dict_pop_def stripVolatile_def)

lemma stripVolatile_idem: "stripVolatile (stripVolatile r) = stripVolatile r"
  by (simp add: stripVolatile_def)

lemma hash_record_mutate_eq:
  "hash_record_mutate md5 r = (md5 (json_dumps (JObject (stripVolatile r))), stripVolatile r)"
  by (simp add: hash_record_mutate_def Let_def dict_pop_strip)

lemma hash_record_eq: "hash_record md5 r = md5 (json_dumps (JObject (stripVolatile r)))"
  by (simp add: hash_record_def deepcopy_def hash_record_mutate_eq)

text \<open>The non-mutating variant works on a fresh copy: the store only grows.\<close>

lemma hash_record_at_eq:
  "a < length h \<Longrightarrow>
   hash_record_at md5 a h = Some (hash_record md5 (h ! a), h @ [stripVolatile (h ! a)])"
  by (simp add: hash_record_at_def deepcopy_at_def hash_record_mutate_at_def hash_record_mutate_eq
        hash_record_eq deepcopy_def nth_append)

text \<open>The mutating variant overwrites the object it is given.\<close>

lemma hash_record_mutate_at_eq:
  "a < length h \<Longrightarrow>
   hash_record_mutate_at md5 a h = Some (hash_record md5 (h ! a), h[a := stripVolatile (h ! a)])"
  by (simp add: hash_record_mutate_at_def hash_record_mutate_eq hash_record_eq)

text \<open>
  Sorting by key forgets the insertion order: two dictionaries with the same items are
  written the same.
\<close>

lemma filter_key_single:
  "distinct (map fst xs) \<Longrightarrow> x \<in> set xs \<Longrightarrow> filter (\<lambda>y. fst x = fst y) xs = [x]"
proof (induction xs)
  case Nil
  then show ?case by simp
next
  case (Cons a xs)
  show ?case
  proof (cases "x = a")
    case True
    have "filter (\<lambda>y. fst a = fst y) xs = []"
      using Cons.prems(1) by (auto simp: filter_empty_conv)
    with True show ?thesis by simp
  next
    case False
    with Cons.prems have "x \<in> set xs" "fst x \<noteq> fst a" by (auto simp: image_iff)
    with Cons show ?thesis by simp
  qed
qed

lemma sort_key_same_items:
  assumes dx: "distinct (map fst xs)" and dy: "distinct (map fst ys)" and s: "set xs = set ys"
  shows "sort_key fst xs = sort_key fst ys"
proof (rule properties_for_sort_key)
  have "distinct xs" "distinct ys" using dx dy by (auto simp: distinct_map)
  then show "mset (sort_key fst ys) = mset xs"
    using s by (simp add: set_eq_iff_mset_eq_distinct)
  show "sorted (map fst (sort_key fst ys))" by simp
  fix k assume "k \<in> set (sort_key fst ys)"
  then have k: "k \<in> set ys" by simp
  have "filter (\<lambda>x. fst k = fst x) (sort_key fst ys) = sort_key fst (filter (\<lambda>x. fst k = fst x) ys)"
    by (simp add: filter_sort)
  also have "\<dots> = [k]" using filter_key_single[OF dy k] by simp
  also have "\<dots> = filter (\<lambda>x. fst k = fst x) xs" using filter_key_single[OF dx] k s by simp
  finally show "filter (\<lambda>x. fst k = fst x) (sort_key fst ys) = filter (\<lambda>x. fst k = fst x) xs" .
qed

lemma json_dumps_same_items:
  "distinct (map fst xs) \<Longrightarrow> distinct (map fst ys) \<Longrightarrow> set xs = set ys \<Longrightarrow>
   json_dumps (JObject xs) = json_dumps (JObject ys)"
  using sort_key_same_items [of xs ys] by simp

lemma hash_record_same_items:
  assumes "distinct (map fst r)" "distinct (map fst r')" "set r = set r'"
  shows "hash_record md5 r = hash_record md5 r'"
proof -
  have "distinct (map fst (stripVolatile r))" "distinct (map fst (stripVolatile r'))"
    using assms(1,2) by (simp_all add: stripVolatile_def distinct_map_filter)
  moreover have "set (stripVolatile r) = set (stripVolatile r')"
    using assms(3) by (simp add: stripVolatile_def)
  ultimately have "json_dumps (JObject (stripVolatile r)) = json_dumps (JObject (stripVolatile r'))"
    by (rule json_dumps_same_items)
  then show ?thesis
    by (simp only: hash_record_eq)
qed

text \<open>
  The serialisation does not see the insertion order at any depth: a value and its
  key-sorted form are written the same.
\<close>

lemma insort_key_map_fst:
  "(\<And>x. fst (f x) = fst x) \<Longrightarrow>
   insort_key fst (f x) (map f ys) = map f (insort_key fst x ys)"
  by (induction ys) auto

lemma sort_key_map_fst:
  "(\<And>x. fst (f x) = fst x) \<Longrightarrow> sort_key fst (map f xs) = map f (sort_key fst xs)"
  by (induction xs) (auto simp: insort_key_map_fst)

lemma json_dumps_sort_items: "json_dumps (sort_items v) = json_dumps v"
proof (induction v)
  case (JArray xs)
  have "map (json_dumps \<circ> sort_items) xs = map json_dumps xs"
    by (rule map_cong [OF refl]) (simp add: JArray)
  then show ?case by (simp del: map_eq_conv)
next
  case (JObject kvs)
  let ?f = "\<lambda>kv. (fst kv, sort_items (snd kv))"
  let ?g = "\<lambda>kv. json_string (fst kv) @ '': '' @ json_dumps (snd kv)"
  have 1: "sort_key fst (sort_key fst (map ?f kvs)) = map ?f (sort_key fst kvs)"
    by (simp add: sort_key_id_if_sorted sort_key_map_fst)
  have 2: "map (?g \<circ> ?f) (sort_key fst kvs) = map ?g (sort_key fst kvs)"
  proof (rule map_cong [OF refl])
    fix kv assume "kv \<in> set (sort_key fst kvs)"
    then have "kv \<in> set kvs" by simp
    moreover have "snd kv \<in> Basic_BNFs.snds kv" by (cases kv) simp
    ultimately have "json_dumps (sort_items (snd kv)) = json_dumps (snd kv)"
      by (rule JObject.IH)
    then show "(?g \<circ> ?f) kv = ?g kv" by simp
  qed
  have "json_dumps (sort_items (JObject kvs)) =
          ''{'' @ py_join '', '' (map ?g (sort_key fst (sort_key fst (map ?f kvs)))) @ ''}''"
    by simp
  also have "\<dots> = ''{'' @ py_join '', '' (map (?g \<circ> ?f) (sort_key fst kvs)) @ ''}''"
    by (simp only: 1 map_map)
  also have "\<dots> = ''{'' @ py_join '', '' (map ?g (sort_key fst kvs)) @ ''}''"
    by (simp only: 2)
  also have "\<dots> = json_dumps (JObject kvs)"
    by simp
  finally show ?case .
qed simp_all

lemma stripVolatile_sort_items:
  "sort_items (JObject (stripVolatile r)) =
   JObject (stripVolatile (case sort_items (JObject r) of JObject kvs \<Rightarrow> kvs | _ \<Rightarrow> []))"
  by (simp add: stripVolatile_def filter_sort filter_map comp_def)

lemma hash_record_sort_items:
  assumes "sort_items (JObject r) = sort_items (JObject r')"
  shows "hash_record md5 r = hash_record md5 r'"
proof -
  have "sort_items (JObject (stripVolatile r)) = sort_items (JObject (stripVolatile r'))"
    using assms by (simp only: stripVolatile_sort_items)
  then have "json_dumps (JObject (stripVolatile r)) = json_dumps (JObject (stripVolatile r'))"
    using json_dumps_sort_items [of "JObject (stripVolatile r)"]
          json_dumps_sort_items [of "JObject (stripVolatile r')"] by simp
  then show ?thesis by (simp add: hash_record_eq)
qed

text \<open>
  Claim C3. For every record, \<^verbatim>\<open>hash_record(record)\<close> equals
  \<^verbatim>\<open>hash_record(stripVolatile(record))\<close>, where \<^verbatim>\<open>stripVolatile\<close> removes the
  \<^verbatim>\<open>last_modified\<close> and \<^verbatim>\<open>schema\<close> fields. The digest is the digest of the serialisation
  of the remaining fields; two records that agree once the two fields are removed have
  the same digest, whatever the values of these fields or whether they are present;
  two records with the same fields inserted in a different order have the same digest,
  and so have two records that are equal once the items of every dictionary in them
  are put in key order; and \<^verbatim>\<open>hash_record\<close> leaves every object of the store as it
  was, its argument among them: it allocates a copy and strips the copy.
\<close>

theorem hash_record_ignores_volatile_fields:
  "hash_record md5 record = hash_record md5 (stripVolatile record)
   \<and> hash_record md5 record = md5 (json_dumps (JObject (stripVolatile record)))
   \<and> (stripVolatile record = stripVolatile record1 \<longrightarrow>
        hash_record md5 record = hash_record md5 record1)
   \<and> (distinct (map fst record) \<and> distinct (map fst record2) \<and> set record = set record2 \<longrightarrow>
        hash_record md5 record = hash_record md5 record2)
   \<and> (sort_items (JObject record) = sort_items (JObject record3) \<longrightarrow>
        hash_record md5 record = hash_record md5 record3)
   \<and> (a < length h \<longrightarrow>
        hash_record_at md5 a h = Some (hash_record md5 (h ! a), h @ [stripVolatile (h ! a)]))"
proof (intro conjI impI)
  show "hash_record md5 record = hash_record md5 (stripVolatile record)"
    by (simp add: hash_record_eq stripVolatile_idem)
  show "hash_record md5 record = md5 (json_dumps (JObject (stripVolatile record)))"
    by (rule hash_record_eq)
  show "hash_record md5 record = hash_record md5 record1"
    if "stripVolatile record = stripVolatile record1"
    using that by (simp add: hash_record_eq)
  show "hash_record md5 record = hash_record md5 record2"
    if "distinct (map fst record) \<and> distinct (map fst record2) \<and> set record = set record2"
    using that hash_record_same_items [of "record" record2 md5] by blast
  show "hash_record md5 record = hash_record md5 record3"
    if "sort_items (JObject record) = sort_items (JObject record3)"
    using that by (rule hash_record_sort_items)
  show "hash_record_at md5 a h = Some (hash_record md5 (h ! a), h @ [stripVolatile (h ! a)])"
    if "a < length h"
    using that by (rule hash_record_at_eq)
qed

theorem hash_record_ignores_volatile_fields_witness:
  "stripVolatile
       [(''target'', JObject [(''os'', JStr ''mac''), (''locale'', JStr ''fr'')]), (''last_modified'', JInt 5),
        (''id'', JStr ''a''), (''schema'', JInt 7)]
     = stripVolatile [(''target'', JObject [(''os'', JStr ''mac''), (''locale'', JStr ''fr'')]), (''id'', JStr ''a'')]
   \<and> distinct (map fst
       [(''target'', JObject [(''os'', JStr ''mac''), (''locale'', JStr ''fr'')]), (''last_modified'', JInt 5),
        (''id'', JStr ''a''), (''schema'', JInt 7)])
   \<and> distinct (map fst
       [(''id'', JStr ''a''), (''schema'', JInt 7),
        (''target'', JObject [(''os'', JStr ''mac''), (''locale'', JStr ''fr'')]), (''last_modified'', JInt 5)])
   \<and> set [(''target'', JObject [(''os'', JStr ''mac''), (''locale'', JStr ''fr'')]), (''last_modified'', JInt 5),
        (''id'', JStr ''a''), (''schema'', JInt 7)]
       = set [(''id'', JStr ''a''), (''schema'', JInt 7),
        (''target'', JObject [(''os'', JStr ''mac''), (''locale'', JStr ''fr'')]), (''last_modified'', JInt 5)]
   \<and> sort_items (JObject
       [(''target'', JObject [(''os'', JStr ''mac''), (''locale'', JStr ''fr'')]), (''last_modified'', JInt 5),
        (''id'', JStr ''a''), (''schema'', JInt 7)])
       = sort_items (JObject
       [(''schema'', JInt 7), (''target'', JObject [(''locale'', JStr ''fr''), (''os'', JStr ''mac'')]),
        (''id'', JStr ''a''), (''last_modified'', JInt 5)])
   \<and> (0::nat) < length [[(''target'', JObject [(''os'', JStr ''mac''), (''locale'', JStr ''fr'')]), (''last_modified'', JInt 5),
        (''id'', JStr ''a''), (''schema'', JInt 7)]]
   \<and> hash_record id
       [(''target'', JObject [(''os'', JStr ''mac''), (''locale'', JStr ''fr'')]), (''last_modified'', JInt 5),
        (''id'', JStr ''a''), (''schema'', JInt 7)]
       = hash_record id [(''target'', JObject [(''os'', JStr ''mac''), (''locale'', JStr ''fr'')]), (''id'', JStr ''a'')]
   \<and> hash_record id
       [(''target'', JObject [(''os'', JStr ''mac''), (''locale'', JStr ''fr'')]), (''last_modified'', JInt 5),
        (''id'', JStr ''a''), (''schema'', JInt 7)]
       = hash_record id
       [(''id'', JStr ''a''), (''schema'', JInt 7),
        (''target'', JObject [(''os'', JStr ''mac''), (''locale'', JStr ''fr'')]), (''last_modified'', JInt 5)]
   \<and> hash_record id
       [(''target'', JObject [(''os'', JStr ''mac''), (''locale'', JStr ''fr'')]), (''last_modified'', JInt 5),
        (''id'', JStr ''a''), (''schema'', JInt 7)]
       = hash_record id
       [(''schema'', JInt 7), (''target'', JObject [(''locale'', JStr ''fr''), (''os'', JStr ''mac'')]),
        (''id'', JStr ''a''), (''last_modified'', JInt 5)]
   \<and> hash_record_at id 0
       [[(''target'', JObject [(''os'', JStr ''mac''), (''locale'', JStr ''fr'')]), (''last_modified'', JInt 5),
        (''id'', JStr ''a''), (''schema'', JInt 7)]]
       = Some (hash_record id
       [(''target'', JObject [(''os'', JStr ''mac''), (''locale'', JStr ''fr'')]), (''last_modified'', JInt 5),
        (''id'', JStr ''a''), (''schema'', JInt 7)],
       [[(''target'', JObject [(''os'', JStr ''mac''), (''locale'', JStr ''fr'')]), (''last_modified'', JInt 5),
        (''id'', JStr ''a''), (''schema'', JInt 7)],
        [(''target'', JObject [(''os'', JStr ''mac''), (''locale'', JStr ''fr'')]), (''id'', JStr ''a'')]])"
proof -
  let ?r = "[(''target'', JObject [(''os'', JStr ''mac''), (''locale'', JStr ''fr'')]), (''last_modified'', JInt 5),
        (''id'', JStr ''a''), (''schema'', JInt 7)]"
  let ?r1 = "[(''target'', JObject [(''os'', JStr ''mac''), (''locale'', JStr ''fr'')]), (''id'', JStr ''a'')]"
  let ?r2 = "[(''id'', JStr ''a''), (''schema'', JInt 7),
        (''target'', JObject [(''os'', JStr ''mac''), (''locale'', JStr ''fr'')]), (''last_modified'', JInt 5)]"
  let ?r3 = "[(''schema'', JInt 7), (''target'', JObject [(''locale'', JStr ''fr''), (''os'', JStr ''mac'')]),
        (''id'', JStr ''a''), (''last_modified'', JInt 5)]"
  note t = hash_record_ignores_volatile_fields [of id ?r ?r1 ?r2 ?r3 0 "[?r]"]
  have s: "stripVolatile ?r = stripVolatile ?r1"
    by (simp add: stripVolatile_def)
  have d: "distinct (map fst ?r) \<and> distinct (map fst ?r2) \<and> set ?r = set ?r2"
    by auto
  have c: "sort_items (JObject ?r) = sort_items (JObject ?r3)"
    by simp
  have l: "(0::nat) < length [?r]"
    by simp
  from t s have e1: "hash_record id ?r = hash_record id ?r1"
    by blast
  from t d have e2: "hash_record id ?r = hash_record id ?r2"
    by blast
  from t c have e3: "hash_record id ?r = hash_record id ?r3"
    by blast
  from t l have "hash_record_at id 0 [?r] = Some (hash_record id ([?r] ! 0), [?r] @ [stripVolatile ([?r] ! 0)])"
    by blast
  then have e4: "hash_record_at id 0 [?r] = Some (hash_record id ?r, [?r, ?r1])"
    by (simp add: stripVolatile_def)
  from s d c l e1 e2 e3 e4 show ?thesis
    by blast
qed

section \<open>Properties of the producer\<close>

text \<open>
  On JSON objects the producer does what the specification says: objects with a
  \<^verbatim>\<open>data\<close> or a \<^verbatim>\<open>permission\<close> key are enqueued in order and followed by the sentinel,
  and the first object with neither key raises the validation error with nothing more
  enqueued.
\<close>

lemma produce_objects_all_valid:
  "\<forall>r\<in>set records. has_payload r \<Longrightarrow>
   produce records queue = (queue @ map Record records @ [Done], None)"
proof (induction records arbitrary: queue)
  case Nil
  then show ?case by simp
next
  case (Cons r rs)
  then have "has_payload r" by simp
  then obtain d where "r = JObject d" "''data'' \<in> fst ` set d \<or> ''permission'' \<in> fst ` set d"
    by (cases r) auto
  with Cons show ?case by auto
qed

lemma produce_objects_first_invalid:
  assumes "\<forall>r\<in>set pre. has_payload r" and "is_object bad" and "\<not> has_payload bad"
  shows "produce (pre @ bad # rest) queue = (queue @ map Record pre, Some invalid_record)"
  using assms
proof (induction pre arbitrary: queue)
  case Nil
  then obtain d where "bad = JObject d" "''data'' \<notin> fst ` set d" "''permission'' \<notin> fst ` set d"
    by (cases bad) auto
  then show ?case by simp
next
  case (Cons r rs)
  then have "has_payload r" by simp
  then obtain d where "r = JObject d" "''data'' \<in> fst ` set d \<or> ''permission'' \<in> fst ` set d"
    by (cases r) auto
  with Cons show ?case by auto
qed

lemma produce_objects_example:
  "produce [JObject [(''data'', JObject [(''title'', JStr ''a'')])], JObject [(''permission'', JObject [])]] []
     = ([Record (JObject [(''data'', JObject [(''title'', JStr ''a'')])]),
         Record (JObject [(''permission'', JObject [])]), Done], None)
   \<and> produce [JObject [(''data'', JNull)], JObject [(''title'', JStr ''b'')], JObject [(''data'', JNull)]] []
     = ([Record (JObject [(''data'', JNull)])], Some invalid_record)"
  by simp

text \<open>
  An item that is not an object is tested all the same: a number, a boolean or
  \<^verbatim>\<open>None\<close> ends production with \<^verbatim>\<open>TypeError\<close>; a string is enqueued when \<^verbatim>\<open>data\<close> or
  \<^verbatim>\<open>permission\<close> is a substring of it, a list when one of the two is an element.
\<close>

lemma produce_scalar_item:
  "r = JNull \<or> r = JBool b \<or> r = JInt i \<Longrightarrow> produce (r # rest) queue = (queue, Some TypeError)"
  by auto

lemma produce_string_item:
  "is_substring ''data'' s \<or> is_substring ''permission'' s \<Longrightarrow>
   produce (JStr s # rest) queue = produce rest (queue @ [Record (JStr s)])"
  by auto

lemma produce_list_item:
  "JStr ''data'' \<in> set xs \<or> JStr ''permission'' \<in> set xs \<Longrightarrow>
   produce (JArray xs # rest) queue = produce rest (queue @ [Record (JArray xs)])"
  by auto

text \<open>
  Claim C4 at a failing input. The input holds two items that have neither a
  \<^verbatim>\<open>data\<close> key nor a \<^verbatim>\<open>permission\<close> key: the string \<^verbatim>\<open>"metadata"\<close> and the list
  \<^verbatim>\<open>["permission"]\<close>. The producer raises nothing: it enqueues both and then the
  sentinel. On the item \<^verbatim>\<open>5\<close>, which has no key either, production ends with
  \<^verbatim>\<open>TypeError\<close> and not with the input-validation error.
\<close>

theorem produce_enqueues_items_without_keys:
  "\<not> has_payload (JStr ''metadata'')
   \<and> \<not> has_payload (JArray [JStr ''permission''])
   \<and> produce [JStr ''metadata'', JArray [JStr ''permission'']] []
       = ([Record (JStr ''metadata''), Record (JArray [JStr ''permission'']), Done], None)
   \<and> produce [JInt 5] [] = ([], Some TypeError)"
  by simp

section \<open>Properties of the batch publisher\<close>

lemma conflict_msg_identified:
  "conflict_identity r = Some (rid, ex) \<Longrightarrow>
   conflict_msg fmt r =
     Inr (''Record '' @ [CHR 0x27] @ fmt rid @ [CHR 0x27] @ '' already exists: '' @ fmt ex)"
  by (auto simp: conflict_identity_def conflict_msg_def split: option.splits json.splits)

lemma conflict_msg_unidentified:
  "conflict_identity r = None \<Longrightarrow>
   conflict_msg fmt r = Inl TypeError \<or> (\<exists>k. conflict_msg fmt r = Inl (KeyError k))"
  unfolding conflict_identity_def conflict_msg_def
  by (auto split: option.splits json.splits)

lemma result_error_msg_described:
  assumes "dict_get r ''code'' = Some (JInt 412) \<longrightarrow> conflict_identity r \<noteq> None"
  shows "result_error_msg fmt r =
           Inr (if carries_error_code r then Some (failure_description fmt r) else None)"
proof (cases "dict_get r ''code'' = Some (JInt 412)")
  case True
  with assms obtain rid ex where ci: "conflict_identity r = Some (rid, ex)" by auto
  show ?thesis
    using True ci conflict_msg_identified[OF ci, of fmt]
    by (simp add: result_error_msg_def carries_error_code_def failure_description_def)
next
  case False
  then show ?thesis
    by (auto simp: result_error_msg_def carries_error_code_def failure_description_def Let_def)
qed

lemma collect_error_msgs_described:
  "\<forall>r\<in>set results. dict_get r ''code'' = Some (JInt 412) \<longrightarrow> conflict_identity r \<noteq> None \<Longrightarrow>
   collect_error_msgs fmt results acc =
     Inr (acc @ map (failure_description fmt) (filter carries_error_code results))"
proof (induction results arbitrary: acc)
  case Nil
  then show ?case by simp
next
  case (Cons r rs)
  then show ?case by (simp add: result_error_msg_described)
qed

text \<open>
  A 412 without the existing record ends the loop with the exception of the failed
  lookup, whatever the other sub-results are: no aggregated failure is raised.
\<close>

lemma result_error_msg_unidentified:
  "dict_get r ''code'' = Some (JInt 412) \<Longrightarrow> conflict_identity r = None \<Longrightarrow>
   result_error_msg fmt r = Inl TypeError \<or> (\<exists>k. result_error_msg fmt r = Inl (KeyError k))"
  using conflict_msg_unidentified [of r fmt]
  by (auto simp: result_error_msg_def)

lemma collect_error_msgs_unidentified:
  "\<exists>r\<in>set results. dict_get r ''code'' = Some (JInt 412) \<and> conflict_identity r = None \<Longrightarrow>
   collect_error_msgs fmt results acc = Inl TypeError
   \<or> (\<exists>k. collect_error_msgs fmt results acc = Inl (KeyError k))"
proof (induction results arbitrary: acc)
  case Nil
  then show ?case by simp
next
  case (Cons r rs)
  show ?case
  proof (cases "dict_get r ''code'' = Some (JInt 412) \<and> conflict_identity r = None")
    case True
    then show ?thesis
      using result_error_msg_unidentified [of r fmt] by auto
  next
    case False
    with Cons.prems have rest: "\<exists>r\<in>set rs. dict_get r ''code'' = Some (JInt 412) \<and> conflict_identity r = None"
      by auto
    from False have "dict_get r ''code'' = Some (JInt 412) \<longrightarrow> conflict_identity r \<noteq> None"
      by simp
    then have "result_error_msg fmt r =
        Inr (if carries_error_code r then Some (failure_description fmt r) else None)"
      by (rule result_error_msg_described)
    then show ?thesis
      using Cons.IH [OF rest] by simp
  qed
qed

lemma publish_records_unidentified:
  assumes "batch_ops records = Inr ops"
    and "\<exists>r\<in>set (send ops). dict_get r ''code'' = Some (JInt 412) \<and> conflict_identity r = None"
  shows "publish_records send fmt records = Inl TypeError
         \<or> (\<exists>k. publish_records send fmt records = Inl (KeyError k))"
  using assms(1) collect_error_msgs_unidentified [OF assms(2), of fmt "[]"]
  by (auto simp: publish_records_def)

text \<open>
  When each sub-result of code 412 carries the existing record and its identifier
  (\<^verbatim>\<open>details.existing.id\<close>), \<^verbatim>\<open>publish_records\<close> raises one aggregated failure if at
  least one sub-result carries an error code, and returns the sub-results otherwise.
  The failure holds one line for each sub-result that carries an error code, in
  order, and none for the others.
\<close>

lemma publish_records_aggregates_identified:
  assumes "batch_ops records = Inr ops" and "send ops = results"
    and "\<forall>r\<in>set results. dict_get r ''code'' = Some (JInt 412) \<longrightarrow> conflict_identity r \<noteq> None"
  shows "publish_records send fmt records =
           (if \<exists>r\<in>set results. carries_error_code r
            then Inl (ValueError (py_join [CHR 0x0A]
                   (map (failure_description fmt) (filter carries_error_code results))))
            else Inr results)"
  using assms
  by (simp add: publish_records_def collect_error_msgs_described filter_empty_conv)

lemma publish_records_aggregates_example:
  "publish_records
        (kinto_replies
           [[(''code'', JInt 412), (''details'', JObject [(''existing'', JObject [(''id'', JStr ''a''), (''last_modified'', JInt 5)])])],
            [(''data'', JObject [(''id'', JStr ''b''), (''title'', JStr ''b'')])]])
        py_str
        [JObject [(''data'', JObject [(''id'', JStr ''a'')])], JObject [(''data'', JObject [(''title'', JStr ''b'')])]]
     = Inl (ValueError (''Record '' @ [CHR 0x27] @ ''a'' @ [CHR 0x27] @ '' already exists: {''
              @ [CHR 0x27] @ ''id'' @ [CHR 0x27] @ '': '' @ [CHR 0x27] @ ''a'' @ [CHR 0x27] @ '', ''
              @ [CHR 0x27] @ ''last_modified'' @ [CHR 0x27] @ '': 5}''))"
proof -
  let ?records = "[JObject [(''data'', JObject [(''id'', JStr ''a'')])], JObject [(''data'', JObject [(''title'', JStr ''b'')])]]"
  let ?ops = "[Update (JObject [(''data'', JObject [(''id'', JStr ''a'')])]), Create (JObject [(''data'', JObject [(''title'', JStr ''b'')])])]"
  let ?conflict = "[(''code'', JInt 412), (''details'', JObject [(''existing'', JObject [(''id'', JStr ''a''), (''last_modified'', JInt 5)])])]"
  let ?results = "[?conflict, [(''data'', JObject [(''id'', JStr ''b''), (''title'', JStr ''b'')])]]"
  have ops: "batch_ops ?records = Inr ?ops"
    by simp
  have send: "kinto_replies ?results ?ops = ?results"
    by (simp add: kinto_replies_def)
  have ci: "conflict_identity ?conflict = Some (JStr ''a'', JObject [(''id'', JStr ''a''), (''last_modified'', JInt 5)])"
    by (simp add: conflict_identity_def)
  have wf: "\<forall>r\<in>set ?results. dict_get r ''code'' = Some (JInt 412) \<longrightarrow> conflict_identity r \<noteq> None"
    using ci by (simp add: dict_get_def)
  have "publish_records (kinto_replies ?results) py_str ?records =
          (if \<exists>r\<in>set ?results. carries_error_code r
            then Inl (ValueError (py_join [CHR 0x0A]
                   (map (failure_description py_str) (filter carries_error_code ?results))))
            else Inr ?results)"
    using ops send wf by (rule publish_records_aggregates_identified)
  then show ?thesis
    using ci
    by (simp add: carries_error_code_def dict_get_def failure_description_def
          repr_string_def repr_char_def int_str_def nat_digits.simps digit_char_def Let_def)
qed

text \<open>
  The smallest failing reply: one sub-result that carries the code 412 and nothing
  else.
\<close>

lemma publish_records_conflict_without_identity:
  "carries_error_code [(''code'', JInt 412)]
   \<and> publish_records (kinto_replies [[(''code'', JInt 412)]]) py_str [JObject [(''data'', JObject [])]]
       = Inl (KeyError ''details'')"
  by (simp add: carries_error_code_def dict_get_def publish_records_def kinto_replies_def
       result_error_msg_def conflict_msg_def)

text \<open>
  Claim C2 at a failing input. One batch call of three records returns three
  sub-results, each carrying an error code: a 400, a 412 without the existing record,
  and a 403. \<^verbatim>\<open>publish_records\<close> raises no aggregated failure: the lookup of
  \<^verbatim>\<open>details\<close> in the 412 raises \<^verbatim>\<open>KeyError\<close> out of the loop, the message collected
  for the 400 is lost and the 403 is never looked at.
\<close>

theorem publish_records_loses_collected_failures:
  "carries_error_code [(''code'', JInt 400)]
   \<and> carries_error_code [(''code'', JInt 412)]
   \<and> carries_error_code [(''code'', JInt 403)]
   \<and> publish_records
        (kinto_replies [[(''code'', JInt 400)], [(''code'', JInt 412)], [(''code'', JInt 403)]])
        py_str
        [JObject [(''data'', JObject [(''title'', JStr ''a'')])],
         JObject [(''data'', JObject [(''title'', JStr ''b'')])],
         JObject [(''data'', JObject [(''title'', JStr ''c'')])]]
       = Inl (KeyError ''details'')"
  by (simp add: carries_error_code_def dict_get_def publish_records_def kinto_replies_def
       result_error_msg_def conflict_msg_def)

section \<open>Properties of the consumer\<close>

text \<open>
  \<^verbatim>\<open>fetch_existing\<close> only ever stores two-element lists, so a store that it loaded and
  extended holds lists.
\<close>

lemma cache_set_list_entries:
  "list_entries records \<Longrightarrow> list_entries (cache_set k (JArray xs) records)"
  by (induction records) (auto simp: list_entries_def)

lemma fetch_entry_list_entries:
  "list_entries records \<Longrightarrow> fetch_entry md5 records r = Inr records' \<Longrightarrow> list_entries records'"
  by (auto simp: fetch_entry_def cache_set_list_entries split: sum.splits prod.splits)

lemma fetch_records_list_entries:
  "list_entries records \<Longrightarrow> fetch_records md5 records rs = Inr records' \<Longrightarrow> list_entries records'"
  by (induction rs arbitrary: records) (auto split: sum.splits dest: fetch_entry_list_entries)

lemma fetch_pages_list_entries:
  "list_entries records \<Longrightarrow> fetch_pages md5 records pages = Inr records' \<Longrightarrow> list_entries records'"
  by (induction pages arbitrary: records) (auto split: sum.splits dest: fetch_records_list_entries)

lemma fetch_existing_list_entries:
  "list_entries records \<Longrightarrow> fetch_existing md5 records pages = Inr records' \<Longrightarrow> list_entries records'"
  by (auto simp: fetch_existing_def split: sum.splits option.splits dest: fetch_pages_list_entries)

text \<open>
  Against such a store \<^verbatim>\<open>record_unchanged\<close> is never true: it compares the whole entry,
  a list, with the digest, a string.
\<close>

lemma record_unchanged_list_entries:
  "list_entries existing \<Longrightarrow> record_unchanged md5 existing r \<noteq> Inr True"
  by (auto simp: record_unchanged_def list_entries_def split: sum.splits option.splits json.splits
        dest!: map_of_SomeD)

lemma consume_step_list_entries:
  assumes "list_entries existing"
    and "consume_step md5 n existing st (Got (Record r)) = Inr st'"
  shows "tasks_done st' = tasks_done st
         \<and> concat (dispatched st') @ batch st' = concat (dispatched st) @ batch st @ [r]"
proof -
  obtain d where d: "py_getitem r ''data'' = Inr d"
    using assms(2) by (auto split: sum.splits)
  have "record_unchanged md5 existing d \<noteq> Inr True"
    using assms(1) by (rule record_unchanged_list_entries)
  moreover obtain b where "record_unchanged md5 existing d = Inr b"
    using assms(2) d by (auto split: sum.splits)
  ultimately have "record_unchanged md5 existing d = Inr False"
    by auto
  with assms(2) d show ?thesis
    by (auto simp: dispatch_def Let_def split: if_splits)
qed

text \<open>
  With a store from identifier to digest, the skip branch marks the item done only
  when the queue item itself has an \<^verbatim>\<open>id\<close> key; otherwise building the log message
  raises \<^verbatim>\<open>KeyError\<close> before \<^verbatim>\<open>queue.task_done()\<close>.
\<close>

lemma consume_step_skip:
  assumes "map_of item ''data'' = Some (JObject d)"
    and "map_of d ''id'' = Some (JStr rid)"
    and "map_of existing (JStr rid) = Some (JStr (hash_record md5 d))"
  shows "consume_step md5 n existing st (Got (Record (JObject item))) =
           (case map_of item ''id'' of
              None \<Rightarrow> Inl (KeyError ''id'')
            | Some v \<Rightarrow> Inr (st\<lparr>tasks_done := Suc (tasks_done st)\<rparr>))"
  using assms by (simp add: record_unchanged_def split: option.splits)

text \<open>
  Claim C1 at a failing input. The remote collection holds one record; \<^verbatim>\<open>fetch_existing\<close>
  loads the Hash Cache Store from it. The queue then delivers the same record twice,
  with the same identifier and the same content hash, and the sentinel. The consumer
  marks neither record done and skips neither: both are in the one batch it hands to
  \<^verbatim>\<open>publish_records\<close>, and the only item it marks done is the sentinel.
\<close>

theorem consume_republishes_unchanged_records:
  "fetch_existing md5 [] [[[(''id'', JStr ''a''), (''last_modified'', JInt 1), (''title'', JStr ''x'')]]]
     = Inr [(JStr ''a'', JArray [JInt 1, JStr (hash_record md5 [(''id'', JStr ''a''), (''title'', JStr ''x'')])])]
   \<and> consume md5 9999 25
       [(JStr ''a'', JArray [JInt 1, JStr (hash_record md5 [(''id'', JStr ''a''), (''title'', JStr ''x'')])])]
       [Got (Record (JObject [(''data'', JObject [(''id'', JStr ''a''), (''title'', JStr ''x'')])])),
        Got (Record (JObject [(''data'', JObject [(''id'', JStr ''a''), (''title'', JStr ''x'')])])),
        Got Done]
     = Some (\<lparr>batch = [],
              dispatched = [[JObject [(''data'', JObject [(''id'', JStr ''a''), (''title'', JStr ''x'')])],
                             JObject [(''data'', JObject [(''id'', JStr ''a''), (''title'', JStr ''x'')])]]],
              tasks_done = 1\<rparr>, None)"
  by (simp add: fetch_existing_def write_cache_def fetch_entry_def hash_record_mutate_eq
        hash_record_eq stripVolatile_def consume_def record_unchanged_def dispatch_def)

text \<open>
  The same queue against a store that maps the identifier to the digest itself: the
  record is found unchanged, and the consumer task ends with \<^verbatim>\<open>KeyError\<close> on the first
  item, which is not marked done.
\<close>

lemma consume_skip_raises:
  "consume md5 9999 25
       [(JStr ''a'', JStr (hash_record md5 [(''id'', JStr ''a''), (''title'', JStr ''x'')]))]
       [Got (Record (JObject [(''data'', JObject [(''id'', JStr ''a''), (''title'', JStr ''x'')])])),
        Got (Record (JObject [(''data'', JObject [(''id'', JStr ''a''), (''title'', JStr ''x'')])])),
        Got Done]
     = Some (\<lparr>batch = [], dispatched = [], tasks_done = 0\<rparr>, Some (KeyError ''id''))"
  by (simp add: consume_def record_unchanged_def dispatch_def)

text \<open>
  An item that the producer enqueued although it is not an object ends the consumer
  task: \<^verbatim>\<open>record['data']\<close> raises \<^verbatim>\<open>TypeError\<close> on a string or a list, and the item is
  not marked done.
\<close>

lemma consume_item_without_keys:
  "consume md5 9999 25 existing [Got (Record (JStr ''metadata'')), Got Done]
     = Some (\<lparr>batch = [], dispatched = [], tasks_done = 0\<rparr>, Some TypeError)"
  by (simp add: consume_def)

text \<open>
  With identifiers of two kinds in the store, \<^verbatim>\<open>fetch_existing\<close> ends with the
  \<^verbatim>\<open>TypeError\<close> of the sort in \<^verbatim>\<open>json.dump\<close>.
\<close>

lemma fetch_existing_mixed_keys:
  "fetch_existing md5 []
     [[[(''id'', JStr ''a''), (''last_modified'', JInt 1)], [(''id'', JInt 7), (''last_modified'', JInt 2)]]]
     = Inl TypeError"
  by (simp add: fetch_existing_def write_cache_def fetch_entry_def hash_record_mutate_eq
        stripVolatile_def)

end
